theory Spec2Isabelle
  imports Main
begin

section \<open>Values of the host language\<close>

text \<open>
  The wizard works on an already parsed response (\<^verbatim>\<open>JSON.parse\<close>, \<^verbatim>\<open>response.json()\<close> or
  the demo table), typed \<^verbatim>\<open>unknown\<close>. A document is a tree of null, booleans, numbers,
  strings, arrays and objects; \<^verbatim>\<open>undefined\<close> is what a read of a missing property gives.

  \<^item> A number is an integral value (\<open>JNum\<close>, where \<open>0\<close> also stands for \<^verbatim>\<open>-0\<close>) or
    \<^verbatim>\<open>NaN\<close> (\<open>JNaN\<close>). The program never computes with a number of a document: it tests
    its truthiness, its \<^verbatim>\<open>typeof\<close> and renders it with \<^verbatim>\<open>String\<close>.
  \<^item> An object is the list of its own properties in \<^verbatim>\<open>Object.keys\<close> order; a read takes the
    first entry of a key (the keys of a real object are distinct).
  \<^item> Strings are lists of 8-bit characters.
  \<^item> A read of a name that an object or array only inherits from the host's prototypes
    (\<^verbatim>\<open>constructor\<close>, \<^verbatim>\<open>toString\<close>, ...) is outside this model: such a read gives
    \<open>JUndefined\<close> here.
\<close>

datatype jsval =
    JUndefined
  | JNull
  | JBool bool
  | JNum int
  | JNaN
  | JStr string
  | JArr "jsval list"
  | JObj "(string \<times> jsval) list"

text \<open>The only exception the modelled code can meet: a property read on null or undefined.\<close>

datatype error = TypeError

text \<open>\<^verbatim>\<open>responseFormat: 'json' | 'positional'\<close>\<close>

datatype format = Json | Positional

text \<open>\<^verbatim>\<open>!v\<close> is \<open>\<not> truthy v\<close> (ToBoolean).\<close>

fun truthy :: "jsval \<Rightarrow> bool" where
  "truthy JUndefined = False"
| "truthy JNull = False"
| "truthy (JBool b) = b"
| "truthy (JNum n) = (n \<noteq> 0)"
| "truthy JNaN = False"
| "truthy (JStr s) = (s \<noteq> [])"
| "truthy (JArr xs) = True"
| "truthy (JObj kvs) = True"

text \<open>\<^verbatim>\<open>Array.isArray(v)\<close>\<close>

fun isArray :: "jsval \<Rightarrow> bool" where
  "isArray (JArr xs) = True"
| "isArray v = False"

text \<open>\<^verbatim>\<open>typeof v === 'object'\<close>: true of null, of arrays and of objects.\<close>

fun typeof_object :: "jsval \<Rightarrow> bool" where
  "typeof_object JNull = True"
| "typeof_object (JArr xs) = True"
| "typeof_object (JObj kvs) = True"
| "typeof_object v = False"


subsection \<open>Numbers and strings\<close>

definition is_digit :: "char \<Rightarrow> bool" where
  "is_digit c = (c \<in> set ''0123456789'')"

text \<open>The class \<^verbatim>\<open>\w\<close> of a regular expression without flags.\<close>

definition is_word :: "char \<Rightarrow> bool" where
  "is_word c =
     (c \<in> set ''abcdefghijklmnopqrstuvwxyzABCDEFGHIJKLMNOPQRSTUVWXYZ0123456789_'')"

text \<open>White space that \<^verbatim>\<open>parseInt\<close> skips (the 8-bit part of it).\<close>

definition is_ws :: "char \<Rightarrow> bool" where
  "is_ws c = (c \<in> set [CHR 0x09, CHR 0x0A, CHR 0x0B, CHR 0x0C, CHR 0x0D, CHR 0x20])"

fun index_of :: "'a \<Rightarrow> 'a list \<Rightarrow> nat option" where
  "index_of c [] = None"
| "index_of c (x # xs) =
     (if c = x then Some 0 else (case index_of c xs of None \<Rightarrow> None | Some n \<Rightarrow> Some (Suc n)))"

text \<open>The value of a character as a digit of the given radix, if it is one.\<close>

definition digit_of :: "nat \<Rightarrow> char \<Rightarrow> nat option" where
  "digit_of radix c =
     (case index_of c ''0123456789abcdef'' of
        Some n \<Rightarrow> if n < radix then Some n else None
      | None \<Rightarrow>
         (case index_of c ''0123456789ABCDEF'' of
            Some n \<Rightarrow> if n < radix then Some n else None
          | None \<Rightarrow> None))"

definition digits_value :: "nat \<Rightarrow> string \<Rightarrow> nat" where
  "digits_value radix ds =
     foldl (\<lambda>acc c. acc * radix + (case digit_of radix c of Some n \<Rightarrow> n | None \<Rightarrow> 0)) 0 ds"

text \<open>
  \<^verbatim>\<open>parseInt(s)\<close> with no radix: skip white space, read a sign, read a \<^verbatim>\<open>0x\<close> prefix,
  take the longest run of digits; \<open>None\<close> is \<^verbatim>\<open>NaN\<close>.
\<close>

definition parseInt :: "string \<Rightarrow> int option" where
  "parseInt s =
     (let s1 = dropWhile is_ws s;
          neg = (s1 \<noteq> [] \<and> hd s1 = CHR ''-'');
          s2 = (if s1 \<noteq> [] \<and> (hd s1 = CHR ''-'' \<or> hd s1 = CHR ''+'') then tl s1 else s1);
          hex = (take 2 s2 = ''0x'' \<or> take 2 s2 = ''0X'');
          radix = (if hex then 16 else 10);
          s3 = (if hex then drop 2 s2 else s2);
          z = takeWhile (\<lambda>c. digit_of radix c \<noteq> None) s3
      in if z = [] then None
         else Some ((if neg then - 1 else 1) * int (digits_value radix z)))"

text \<open>\<^verbatim>\<open>String(n)\<close> of an integral number, in decimal digits (as below \<open>10\<^sup>2\<^sup>1\<close>).\<close>

fun show_nat :: "nat \<Rightarrow> string" where
  "show_nat n =
     (if n < 10 then [''0123456789'' ! n]
      else show_nat (n div 10) @ [''0123456789'' ! (n mod 10)])"

definition show_int :: "int \<Rightarrow> string" where
  "show_int i = (if i < 0 then CHR ''-'' # show_nat (nat (- i)) else show_nat (nat i))"

text \<open>A canonical array index as a property name: decimal digits with no leading zero.\<close>

definition array_index :: "string \<Rightarrow> nat option" where
  "array_index k =
     (if k \<noteq> [] \<and> list_all is_digit k \<and> (k = ''0'' \<or> hd k \<noteq> CHR ''0'')
      then Some (digits_value 10 k) else None)"

subsection \<open>Property reads\<close>

text \<open>\<^verbatim>\<open>xs[n]\<close> for an array and a number: out of range, negative and NaN give undefined.\<close>

definition arr_at :: "jsval list \<Rightarrow> int option \<Rightarrow> jsval" where
  "arr_at xs n =
     (case n of
        None \<Rightarrow> JUndefined
      | Some i \<Rightarrow> if 0 \<le> i \<and> nat i < length xs then xs ! nat i else JUndefined)"

definition own_prop :: "(string \<times> jsval) list \<Rightarrow> string \<Rightarrow> jsval" where
  "own_prop kvs k = (case map_of kvs k of Some v \<Rightarrow> v | None \<Rightarrow> JUndefined)"

text \<open>\<^verbatim>\<open>v[k]\<close> for a string \<open>k\<close>. It throws on null and undefined.\<close>

fun get_prop :: "jsval \<Rightarrow> string \<Rightarrow> error + jsval" where
  "get_prop JUndefined k = Inl TypeError"
| "get_prop JNull k = Inl TypeError"
| "get_prop (JObj kvs) k = Inr (own_prop kvs k)"
| "get_prop (JArr xs) k =
     Inr (if k = ''length'' then JNum (int (length xs))
          else (case array_index k of
                  Some n \<Rightarrow> if n < length xs then xs ! n else JUndefined
                | None \<Rightarrow> JUndefined))"
| "get_prop (JStr s) k =
     Inr (if k = ''length'' then JNum (int (length s))
          else (case array_index k of
                  Some n \<Rightarrow> if n < length s then JStr [s ! n] else JUndefined
                | None \<Rightarrow> JUndefined))"
| "get_prop v k = Inr JUndefined"

text \<open>\<^verbatim>\<open>v[n]\<close> for a number \<open>n\<close> (\<open>None\<close> is NaN); on an object the name is \<^verbatim>\<open>String(n)\<close>.\<close>

fun get_idx :: "jsval \<Rightarrow> int option \<Rightarrow> error + jsval" where
  "get_idx JUndefined n = Inl TypeError"
| "get_idx JNull n = Inl TypeError"
| "get_idx (JArr xs) n = Inr (arr_at xs n)"
| "get_idx (JStr s) n =
     Inr (case n of
            None \<Rightarrow> JUndefined
          | Some i \<Rightarrow> if 0 \<le> i \<and> nat i < length s then JStr [s ! nat i] else JUndefined)"
| "get_idx (JObj kvs) n =
     Inr (own_prop kvs (case n of None \<Rightarrow> ''NaN'' | Some i \<Rightarrow> show_int i))"
| "get_idx v n = Inr JUndefined"

section \<open>The value resolver: \<^verbatim>\<open>extractValue\<close>\<close>

text \<open>\<^verbatim>\<open>path.replace(/^\$\.?/, '')\<close>\<close>

fun strip_root :: "string \<Rightarrow> string" where
  "strip_root (c # d # s) =
     (if c = CHR ''$'' then (if d = CHR ''.'' then s else d # s) else c # d # s)"
| "strip_root [c] = (if c = CHR ''$'' then [] else [c])"
| "strip_root [] = []"

text \<open>\<^verbatim>\<open>s.split(c)\<close>: the empty string splits into one empty piece.\<close>

fun split_on :: "char \<Rightarrow> string \<Rightarrow> string list" where
  "split_on c [] = [[]]"
| "split_on c (x # xs) =
     (if x = c then [] # split_on c xs
      else (case split_on c xs of
              w # ws \<Rightarrow> (x # w) # ws
            | [] \<Rightarrow> [[x]]))"

text \<open>\<^verbatim>\<open>path.replace(/^\$\.?/, '').split('.').filter(Boolean)\<close>\<close>

definition path_parts :: "string \<Rightarrow> string list" where
  "path_parts path = filter (\<lambda>s. s \<noteq> []) (split_on CHR ''.'' (strip_root path))"

text \<open>
  \<^verbatim>\<open>part.match(/^(\w*)\[(\*|\d+)\]$/)\<close>: the two groups, when the part matches. The key
  is the longest run of word characters, since the next character must be the bracket.
\<close>

definition arrayMatch :: "string \<Rightarrow> (string \<times> string) option" where
  "arrayMatch part =
     (let key = takeWhile is_word part;
          rest = dropWhile is_word part
      in if rest \<noteq> [] \<and> hd rest = CHR ''['' \<and> tl rest \<noteq> [] \<and> last (tl rest) = CHR '']''
         then (let indexStr = butlast (tl rest)
               in if indexStr = ''*'' \<or> (indexStr \<noteq> [] \<and> list_all is_digit indexStr)
                  then Some (key, indexStr) else None)
         else None)"

text \<open>
  The loop \<^verbatim>\<open>for (const part of parts)\<close> with its running value \<^verbatim>\<open>current\<close>; the result
  is what the function returns (from inside the loop, or \<^verbatim>\<open>current\<close> after it), or the
  exception a property read throws.
\<close>

fun walk :: "jsval \<Rightarrow> string list \<Rightarrow> error + jsval" where
  "walk current [] = Inr current"
| "walk current (part # parts) =
     (if current = JNull \<or> current = JUndefined then Inr JNull
      else
        (case arrayMatch part of
           Some (key, indexStr) \<Rightarrow>
             (case (if key \<noteq> [] \<and> typeof_object current \<and> current \<noteq> JNull
                    then get_prop current key else Inr current) of
                Inl e \<Rightarrow> Inl e
              | Inr current1 \<Rightarrow>
                  if isArray current1 then
                    (if indexStr = ''*'' then Inr current1
                     else (case get_idx current1 (parseInt indexStr) of
                             Inl e \<Rightarrow> Inl e
                           | Inr current2 \<Rightarrow> walk current2 parts))
                  else walk current1 parts)
         | None \<Rightarrow>
             if typeof_object current \<and> current \<noteq> JNull then
               (case get_prop current part of
                  Inl e \<Rightarrow> Inl e
                | Inr current1 \<Rightarrow> walk current1 parts)
             else walk current parts))"

text \<open>
  \<^verbatim>\<open>extractValue(data, path, format)\<close>. The keyed branch runs inside \<^verbatim>\<open>try\<close>, whose
  \<^verbatim>\<open>catch\<close> returns null; the positional branch runs outside it.
\<close>

definition extractValue :: "jsval \<Rightarrow> string \<Rightarrow> format \<Rightarrow> error + jsval" where
  "extractValue data path fmt =
     (if \<not> truthy data then Inr JNull
      else if fmt = Positional then
        (if isArray data then get_idx data (parseInt path) else Inr JNull)
      else
        (case walk data (path_parts path) of
           Inl e \<Rightarrow> Inr JNull
         | Inr v \<Rightarrow> Inr v))"

section \<open>The path catalog: \<^verbatim>\<open>extractJsonPaths\<close>\<close>

text \<open>
  \<^verbatim>\<open>extractJsonPaths(obj, prefix)\<close>; \<open>paths_of_keys\<close> is its loop
  \<^verbatim>\<open>Object.keys(obj).forEach(...)\<close> over the properties of an object, in which
  \<^verbatim>\<open>obj[key]\<close> reads back the value of the property the loop is at.
\<close>

fun extractJsonPaths :: "jsval \<Rightarrow> string \<Rightarrow> string list"
  and paths_of_keys :: "(string \<times> jsval) list \<Rightarrow> string \<Rightarrow> string list" where
  "extractJsonPaths JNull prefix = []"
| "extractJsonPaths JUndefined prefix = []"
| "extractJsonPaths (JArr xs) prefix =
     (prefix @ ''[*]'') #
     (case xs of [] \<Rightarrow> [] | x # _ \<Rightarrow> extractJsonPaths x (prefix @ ''[*]''))"
| "extractJsonPaths (JObj kvs) prefix = paths_of_keys kvs prefix"
| "extractJsonPaths (JBool b) prefix = []"
| "extractJsonPaths (JNum n) prefix = []"
| "extractJsonPaths JNaN prefix = []"
| "extractJsonPaths (JStr s) prefix = []"
| "paths_of_keys [] prefix = []"
| "paths_of_keys ((key, v) # kvs) prefix =
     (prefix @ ''.'' @ key) #
     extractJsonPaths v (prefix @ ''.'' @ key) @ paths_of_keys kvs prefix"

text \<open>
  Indexing a document by a chain of keys, through keyed mappings only:
  \<^verbatim>\<open>d[k1][k2]...[kn]\<close>, defined when every value on the way is an object that has the key.
\<close>

fun descend :: "jsval \<Rightarrow> string list \<Rightarrow> jsval option" where
  "descend v [] = Some v"
| "descend (JObj kvs) (k # ks) =
     (case map_of kvs k of Some v \<Rightarrow> descend v ks | None \<Rightarrow> None)"
| "descend v (k # ks) = None"

text \<open>The path string the catalog builds for a chain of keyed descents below a prefix.\<close>

definition keyed_path :: "string \<Rightarrow> string list \<Rightarrow> string" where
  "keyed_path prefix ks = prefix @ concat (map (\<lambda>k. CHR ''.'' # k) ks)"

text \<open>A key that the path syntax can carry: not empty, no dot, no opening bracket.\<close>

definition plain_key :: "string \<Rightarrow> bool" where
  "plain_key k = (k \<noteq> [] \<and> CHR ''.'' \<notin> set k \<and> CHR ''['' \<notin> set k)"

section \<open>Positional statistics\<close>

text \<open>The elements of an array (read only under \<^verbatim>\<open>Array.isArray\<close>).\<close>

fun elems :: "jsval \<Rightarrow> jsval list" where
  "elems (JArr xs) = xs"
| "elems v = []"

text \<open>\<^verbatim>\<open>getPositionalArrayLength(data)\<close>\<close>

definition getPositionalArrayLength :: "jsval \<Rightarrow> nat" where
  "getPositionalArrayLength data =
     (if \<not> truthy data then 0
      else if isArray data then
        (if length (elems data) = 0 then 0
         else (let firstItem = elems data ! 0
               in if isArray firstItem then length (elems firstItem)
                  else if \<not> typeof_object firstItem \<or> firstItem = JNull
                       then length (elems data)
                       else 0))
      else 0)"

subsection \<open>\<^verbatim>\<open>JSON.stringify\<close>\<close>

fun join :: "string \<Rightarrow> string list \<Rightarrow> string" where
  "join sep [] = []"
| "join sep [s] = s"
| "join sep (s # t # ss) = s @ sep @ join sep (t # ss)"

definition json_escape :: "char \<Rightarrow> string" where
  "json_escape c =
     (if c = CHR 0x22 then [CHR 0x5C, CHR 0x22]
      else if c = CHR 0x5C then [CHR 0x5C, CHR 0x5C]
      else if c = CHR 0x08 then [CHR 0x5C, CHR ''b'']
      else if c = CHR 0x09 then [CHR 0x5C, CHR ''t'']
      else if c = CHR 0x0A then [CHR 0x5C, CHR ''n'']
      else if c = CHR 0x0C then [CHR 0x5C, CHR ''f'']
      else if c = CHR 0x0D then [CHR 0x5C, CHR ''r'']
      else if (of_char c :: nat) < 32 then
        [CHR 0x5C, CHR ''u'', CHR ''0'', CHR ''0'',
         ''0123456789abcdef'' ! (of_char c div 16), ''0123456789abcdef'' ! (of_char c mod 16)]
      else [c])"

definition json_quote :: "string \<Rightarrow> string" where
  "json_quote s = CHR 0x22 # concat (map json_escape s) @ [CHR 0x22]"

text \<open>
  \<^verbatim>\<open>JSON.stringify(v)\<close> for a value that is null, an array or an object (the only calls
  the program makes); inside an array undefined and NaN are written \<^verbatim>\<open>null\<close>, inside an
  object a property whose value is undefined is left out.
\<close>

fun JSON_stringify :: "jsval \<Rightarrow> string"
  and stringify_elems :: "jsval list \<Rightarrow> string list"
  and stringify_props :: "(string \<times> jsval) list \<Rightarrow> string list" where
  "JSON_stringify JUndefined = ''null''"
| "JSON_stringify JNull = ''null''"
| "JSON_stringify (JBool b) = (if b then ''true'' else ''false'')"
| "JSON_stringify (JNum n) = show_int n"
| "JSON_stringify JNaN = ''null''"
| "JSON_stringify (JStr s) = json_quote s"
| "JSON_stringify (JArr xs) = ''['' @ join '','' (stringify_elems xs) @ '']''"
| "JSON_stringify (JObj kvs) = ''{'' @ join '','' (stringify_props kvs) @ ''}''"
| "stringify_elems [] = []"
| "stringify_elems (x # xs) = JSON_stringify x # stringify_elems xs"
| "stringify_props [] = []"
| "stringify_props ((k, v) # kvs) =
     (if v = JUndefined then stringify_props kvs
      else (json_quote k @ '':'' @ JSON_stringify v) # stringify_props kvs)"

text \<open>\<^verbatim>\<open>(v) => (typeof v === 'object' ? JSON.stringify(v) : v)\<close>\<close>

definition sample_value :: "jsval \<Rightarrow> jsval" where
  "sample_value v = (if typeof_object v then JStr (JSON_stringify v) else v)"

text \<open>\<^verbatim>\<open>getPositionalSampleValues(data)\<close>\<close>

definition getPositionalSampleValues :: "jsval \<Rightarrow> jsval list" where
  "getPositionalSampleValues data =
     (if \<not> isArray data \<or> length (elems data) = 0 then []
      else (let firstItem = elems data ! 0
            in if isArray firstItem then map sample_value (elems firstItem)
               else if \<not> typeof_object firstItem \<or> firstItem = JNull
                    then map sample_value (elems data)
                    else []))"

section \<open>The mapping configuration\<close>

text \<open>\<^verbatim>\<open>interface FieldMapping\<close>; the field \<^verbatim>\<open>id\<close> is \<open>idF\<close> here.\<close>

record FieldMapping =
  idF :: string
  externalPath :: string
  internalType :: string
  internalField :: string

datatype target = Portfolio | Organizations

text \<open>\<^verbatim>\<open>interface MappingConfig\<close>; \<open>keyIndex\<close> is a number, \<open>None\<close> being NaN.\<close>

record MappingConfig =
  target :: target
  responseFormat :: format
  keyPath :: string
  keyIndex :: "int option"
  mappings :: "FieldMapping list"

text \<open>The catalogs of target fields, as (value, label).\<close>

definition ATTRIBUTE_FIELDS :: "(string \<times> string) list" where
  "ATTRIBUTE_FIELDS =
     [(''region'', ''Region''), (''room_count'', ''Room Count''),
      (''brand'', ''Brand''), (''property_code'', ''Property Code'')]"

definition DATA_FIELDS :: "(string \<times> string) list" where
  "DATA_FIELDS = [(''occupancy'', ''Occupancy'')]"









section \<open>The mapping evaluator: \<^verbatim>\<open>processResultsData\<close>\<close>

subsection \<open>\<^verbatim>\<open>String(v)\<close>\<close>

fun js_String :: "jsval \<Rightarrow> string"
  and js_String_elems :: "jsval list \<Rightarrow> string list" where
  "js_String JUndefined = ''undefined''"
| "js_String JNull = ''null''"
| "js_String (JBool b) = (if b then ''true'' else ''false'')"
| "js_String (JNum n) = show_int n"
| "js_String JNaN = ''NaN''"
| "js_String (JStr s) = s"
| "js_String (JArr xs) = join '','' (js_String_elems xs)"
| "js_String (JObj kvs) = ''[object Object]''"
| "js_String_elems [] = []"
| "js_String_elems (x # xs) =
     (if x = JNull \<or> x = JUndefined then [] else js_String x) # js_String_elems xs"

subsection \<open>The entity directory\<close>

definition FAKE_INTERNAL_ENTITY_MAP :: "(string \<times> string) list" where
  "FAKE_INTERNAL_ENTITY_MAP =
     [(''HNLMC'', ''Waikiki Beach Marriott''),
      (''RENEW'', ''Hotel Renew''),
      (''ABQMC'', ''Albuquerque Marriott''),
      (''ATLBC'', ''Atlanta Marriott Buckhead''),
      (''BDRSF'', ''DoubleTree Stamford''),
      (''BWGWT'', ''Holiday Inn Bowling Green''),
      (''CAEGS'', ''Embassy Suites Columbia''),
      (''CHSEM'', ''Embassy Suites Charleston''),
      (''CIDMC'', ''Cedar Rapids Marriott''),
      (''CLTBR'', ''Charlotte Airport Hilton''),
      (''CRWEM'', ''Embassy Suites Charleston WV''),
      (''CVGEM'', ''Holiday Inn Cincinnati''),
      (''DALEM'', ''Embassy Suites DFW''),
      (''DALHS'', ''Hampton Suites Mesquite''),
      (''DENAU'', ''Crowne Plaza Denver''),
      (''DSMDN'', ''Embassy Suites Des Moines''),
      (''DSMSI'', ''Sheraton West Des Moines''),
      (''DTWWI'', ''Westin Southfield''),
      (''DVPTR'', ''Radisson Quad City''),
      (''FLLMC'', ''Marriott Coral Springs''),
      (''FNLCO'', ''Hilton Fort Collins''),
      (''FYVSP'', ''Hampton Inn Springdale''),
      (''GSOGB'', ''Embassy Suites Greensboro''),
      (''GSOHW'', ''Homewood Suites Greensboro''),
      (''GSPES'', ''Embassy Suites Greenville'')]"

text \<open>\<^verbatim>\<open>getOrgNameFromKey(key)\<close>, called with a string.\<close>

definition getOrgNameFromKey :: "string \<Rightarrow> string" where
  "getOrgNameFromKey keyStr =
     (case map_of FAKE_INTERNAL_ENTITY_MAP keyStr of
        Some name \<Rightarrow> if name \<noteq> [] then name else ''Property '' @ keyStr
      | None \<Rightarrow> ''Property '' @ keyStr)"

subsection \<open>Mapped fields\<close>

text \<open>
  \<^verbatim>\<open>fieldLabel || mapping.internalField\<close>, where \<^verbatim>\<open>fieldLabel\<close> is the label that
  \<^verbatim>\<open>find\<close> gives in the catalog of the mapping's category.
\<close>

definition field_label :: "FieldMapping \<Rightarrow> string" where
  "field_label mapping =
     (let fieldLabel =
            (if internalType mapping = ''attributes''
             then map_of ATTRIBUTE_FIELDS (internalField mapping)
             else map_of DATA_FIELDS (internalField mapping))
      in case fieldLabel of
           Some l \<Rightarrow> if l \<noteq> [] then l else internalField mapping
         | None \<Rightarrow> internalField mapping)"

text \<open>
  The loop \<^verbatim>\<open>for (const mapping of mappingConfig.mappings)\<close> that fills a
  \<^verbatim>\<open>Record<string, unknown>\<close>, here a map from labels to values.
\<close>

fun map_fields ::
    "jsval \<Rightarrow> format \<Rightarrow> FieldMapping list \<Rightarrow> (string \<rightharpoonup> jsval) \<Rightarrow> error + (string \<rightharpoonup> jsval)" where
  "map_fields data fmt [] result = Inr result"
| "map_fields data fmt (mapping # ms) result =
     (case extractValue data (externalPath mapping) fmt of
        Inl e \<Rightarrow> Inl e
      | Inr v \<Rightarrow> map_fields data fmt ms (result(field_label mapping \<mapsto> v)))"

subsection \<open>The record collection\<close>

definition envelope_keys :: "string list" where
  "envelope_keys = [''data'', ''items'', ''results'', ''records'', ''organizations'']"

text \<open>
  The loop \<^verbatim>\<open>for (const key of [...]) { if (Array.isArray(obj[key])) { records = obj[key]; break; } }\<close>
  started with \<^verbatim>\<open>records = []\<close>.
\<close>

fun find_envelope :: "jsval \<Rightarrow> string list \<Rightarrow> error + jsval list" where
  "find_envelope obj [] = Inr []"
| "find_envelope obj (key # keys) =
     (case get_prop obj key of
        Inl e \<Rightarrow> Inl e
      | Inr v \<Rightarrow> if isArray v then Inr (elems v) else find_envelope obj keys)"

text \<open>The value of \<^verbatim>\<open>records\<close> when the loop over the records starts.\<close>

definition derive_records :: "format \<Rightarrow> jsval \<Rightarrow> error + jsval list" where
  "derive_records fmt data =
     (if fmt = Positional then
        (if isArray data then
           (case get_idx data (Some 0) of
              Inl e \<Rightarrow> Inl e
            | Inr first \<Rightarrow> if isArray first then Inr (elems data) else Inr [data])
         else Inr [])
      else
        (if isArray data then Inr (elems data)
         else
           (case find_envelope data envelope_keys of
              Inl e \<Rightarrow> Inl e
            | Inr records \<Rightarrow>
                if length records = 0 \<and> typeof_object data then Inr [data]
                else Inr records)))"

subsection \<open>Rows\<close>

text \<open>\<^verbatim>\<open>interface ProcessedRow\<close>\<close>

record ProcessedRow =
  entityKey :: string
  orgName :: string
  mappedFields :: "string \<rightharpoonup> jsval"

text \<open>
  The value found at the key locator: \<^verbatim>\<open>record[mappingConfig.keyIndex]\<close>, or
  \<^verbatim>\<open>extractValue(record, mappingConfig.keyPath, format)\<close>.
\<close>

definition key_value :: "MappingConfig \<Rightarrow> jsval \<Rightarrow> error + jsval" where
  "key_value cfg rec =
     (if responseFormat cfg = Positional then get_idx rec (keyIndex cfg)
      else extractValue rec (keyPath cfg) (responseFormat cfg))"

text \<open>\<^verbatim>\<open>String(v || 'unknown')\<close>\<close>

definition key_string :: "jsval \<Rightarrow> string" where
  "key_string v = js_String (if truthy v then v else JStr ''unknown'')"

text \<open>The body of \<^verbatim>\<open>records.map((record) => ...)\<close>.\<close>

definition process_record :: "MappingConfig \<Rightarrow> jsval \<Rightarrow> error + ProcessedRow" where
  "process_record cfg rec =
     (case key_value cfg rec of
        Inl e \<Rightarrow> Inl e
      | Inr v \<Rightarrow>
          (case map_fields rec (responseFormat cfg) (mappings cfg) Map.empty of
             Inl e \<Rightarrow> Inl e
           | Inr mapped \<Rightarrow>
               Inr \<lparr>entityKey = key_string v,
                    orgName = getOrgNameFromKey (key_string v),
                    mappedFields = mapped\<rparr>))"

fun process_records :: "MappingConfig \<Rightarrow> jsval list \<Rightarrow> error + ProcessedRow list" where
  "process_records cfg [] = Inr []"
| "process_records cfg (rec # recs) =
     (case process_record cfg rec of
        Inl e \<Rightarrow> Inl e
      | Inr row \<Rightarrow>
          (case process_records cfg recs of
             Inl e \<Rightarrow> Inl e
           | Inr rows \<Rightarrow> Inr (row # rows)))"

text \<open>What \<^verbatim>\<open>processResultsData\<close> returns: null, one flat record, or the rows.\<close>

datatype processed =
    PNull
  | PRecord "string \<rightharpoonup> jsval"
  | PRows "ProcessedRow list"

text \<open>
  \<^verbatim>\<open>processResultsData()\<close>, as a function of the configuration and of \<^verbatim>\<open>data\<close>, the
  value of \<^verbatim>\<open>resultsData || getParsedData()\<close>.
\<close>

definition processResultsData :: "MappingConfig \<Rightarrow> jsval \<Rightarrow> error + processed" where
  "processResultsData cfg data =
     (if \<not> truthy data then Inr PNull
      else if target cfg = Portfolio then
        (case map_fields data (responseFormat cfg) (mappings cfg) Map.empty of
           Inl e \<Rightarrow> Inl e
         | Inr result \<Rightarrow> Inr (PRecord result))
      else
        (case derive_records (responseFormat cfg) data of
           Inl e \<Rightarrow> Inl e
         | Inr records \<Rightarrow>
             (case process_records cfg records of
                Inl e \<Rightarrow> Inl e
              | Inr rows \<Rightarrow> Inr (PRows rows))))"

section \<open>Properties of the value resolver\<close>

subsection \<open>No property read throws\<close>

lemma get_prop_defined:
  "v \<noteq> JNull \<Longrightarrow> v \<noteq> JUndefined \<Longrightarrow> \<exists>w. get_prop v k = Inr w"
  by (cases v) simp_all

lemma get_idx_array: "isArray v \<Longrightarrow> \<exists>w. get_idx v n = Inr w"
  by (cases v) simp_all

lemma walk_no_raise: "\<exists>v. walk cur parts = Inr v"
proof (induction parts arbitrary: cur)
  case Nil
  show ?case by simp
next
  case (Cons part parts)
  show ?case
  proof (cases "cur = JNull \<or> cur = JUndefined")
    case True
    then show ?thesis by auto
  next
    case False
    then have nn: "cur \<noteq> JNull" "cur \<noteq> JUndefined" by simp_all
    show ?thesis
    proof (cases "arrayMatch part")
      case None
      from get_prop_defined [OF nn] obtain w where "get_prop cur part = Inr w" by blast
      with None nn Cons.IH show ?thesis by simp
    next
      case (Some m)
      obtain key indexStr where m: "m = (key, indexStr)" by (cases m)
      obtain c1 where c1:
        "(if key \<noteq> [] \<and> typeof_object cur \<and> cur \<noteq> JNull
          then get_prop cur key else Inr cur) = Inr c1"
        using get_prop_defined [OF nn, of key]
        by (cases "key \<noteq> [] \<and> typeof_object cur \<and> cur \<noteq> JNull") auto
      show ?thesis
      proof (cases "isArray c1")
        case True
        from get_idx_array [OF True] obtain c2 where "get_idx c1 (parseInt indexStr) = Inr c2"
          by blast
        with True Some m nn c1 Cons.IH show ?thesis by simp
      next
        case False
        with Some m nn c1 Cons.IH show ?thesis by simp
      qed
    qed
  qed
qed


text \<open>
  C1. The resolver is total: for every document, every address and both modes it returns a
  value (possibly null or undefined) and never throws. The positional branch reads the
  array only under \<^verbatim>\<open>Array.isArray\<close>; in the keyed branch no property read of the walk
  throws, so the \<^verbatim>\<open>catch\<close> is never entered. The malformed address \<^verbatim>\<open>$.a..b\<close> loses its
  empty segment and resolves as \<^verbatim>\<open>$.a.b\<close> does.
\<close>

theorem extractValue_never_raises:
  "(\<exists>v. extractValue data path fmt = Inr v) \<and>
   (\<exists>v. walk data (path_parts path) = Inr v) \<and>
   path_parts ''$.a..b'' = [''a'', ''b''] \<and>
   extractValue data ''$.a..b'' Json = extractValue data ''$.a.b'' Json"
proof -
  have a: "\<exists>v. extractValue data path fmt = Inr v"
    using get_idx_array [of data "parseInt path"]
    by (auto simp: extractValue_def split: sum.splits)
  have b: "path_parts ''$.a..b'' = [''a'', ''b'']" "path_parts ''$.a.b'' = [''a'', ''b'']"
    by (simp_all add: path_parts_def)
  show ?thesis using a walk_no_raise b by (simp add: extractValue_def)
qed

subsection \<open>Falsy documents and the bare root\<close>

text \<open>
  C9. A falsy document (in particular the number 0, the empty string, false and NaN)
  resolves to null for every address in both modes, the address \<^verbatim>\<open>$\<close> included; for a
  document that is not falsy the keyed address \<^verbatim>\<open>$\<close> has no segment and resolves to the
  document itself.
\<close>

theorem falsy_document_absent:
  "(\<not> truthy d \<longrightarrow> extractValue d path fmt = Inr JNull) \<and>
   (truthy d \<longrightarrow> extractValue d ''$'' Json = Inr d)"
  by (simp add: extractValue_def path_parts_def)

theorem falsy_document_absent_witness:
  "extractValue (JNum 0) ''$'' Json = Inr JNull \<and>
   extractValue (JStr []) ''0'' Positional = Inr JNull \<and>
   extractValue (JBool False) ''$.a'' Json = Inr JNull \<and>
   extractValue JNaN ''$'' Json = Inr JNull \<and>
   extractValue (JStr ''x'') ''$'' Json = Inr (JStr ''x'')"
  using falsy_document_absent [of "JNum 0" "''$''" Json]
    falsy_document_absent [of "JStr []" "''0''" Positional]
    falsy_document_absent [of "JBool False" "''$.a''" Json]
    falsy_document_absent [of JNaN "''$''" Json]
    falsy_document_absent [of "JStr ''x''"]
  by simp

subsection \<open>Plain segments\<close>





section \<open>Properties of the path catalog\<close>

subsection \<open>Splitting a path of plain keys\<close>

lemma split_on_key: "c \<notin> set k \<Longrightarrow> split_on c (k @ c # s) = k # split_on c s"
  by (induction k) auto

lemma split_on_last_key: "c \<notin> set k \<Longrightarrow> split_on c k = [k]"
  by (induction k) auto

lemma split_on_keys:
  "c \<notin> set k \<Longrightarrow> \<forall>k'\<in>set ks. c \<notin> set k' \<Longrightarrow>
   split_on c (k @ concat (map (\<lambda>k. c # k) ks)) = k # ks"
  by (induction ks arbitrary: k) (auto simp: split_on_key split_on_last_key)

lemma path_parts_keyed:
  assumes "\<forall>k\<in>set ks. plain_key k"
  shows "path_parts (keyed_path ''$'' ks) = ks"
proof (cases ks)
  case Nil
  then show ?thesis by (simp add: keyed_path_def path_parts_def)
next
  case (Cons k ks')
  have "strip_root (keyed_path ''$'' ks) = k @ concat (map (\<lambda>k. CHR ''.'' # k) ks')"
    by (simp add: keyed_path_def Cons)
  moreover have "split_on CHR ''.'' (k @ concat (map (\<lambda>k. CHR ''.'' # k) ks')) = k # ks'"
    using assms Cons by (intro split_on_keys) (auto simp: plain_key_def)
  moreover have "filter (\<lambda>s. s \<noteq> []) ks = ks"
    using assms by (auto simp: plain_key_def filter_id_conv)
  ultimately show ?thesis by (simp add: path_parts_def Cons)
qed

lemma arrayMatch_plain:
  assumes "CHR ''['' \<notin> set k"
  shows "arrayMatch k = None"
proof (cases "dropWhile is_word k")
  case Nil
  then show ?thesis by (simp add: arrayMatch_def)
next
  case (Cons x rest)
  then have "x \<in> set (dropWhile is_word k)" by simp
  then have "x \<in> set k" by (rule set_dropWhileD)
  with assms have "x \<noteq> CHR ''[''" by blast
  with Cons show ?thesis by (simp add: arrayMatch_def)
qed

subsection \<open>The walk follows the keys\<close>

lemma walk_descend:
  "descend d ks = Some v \<Longrightarrow> \<forall>k\<in>set ks. plain_key k \<Longrightarrow> walk d (ks @ rest) = walk v rest"
proof (induction d ks rule: descend.induct)
  case (1 v)
  then show ?case by simp
next
  case (2 kvs k ks)
  then obtain w where w: "map_of kvs k = Some w" "descend w ks = Some v"
    by (auto split: option.splits)
  have "arrayMatch k = None" using 2 by (auto simp: plain_key_def intro: arrayMatch_plain)
  then have "walk (JObj kvs) ((k # ks) @ rest) = walk w (ks @ rest)"
    using w by (simp add: own_prop_def)
  then show ?case using 2 w by simp
qed simp_all

subsection \<open>The catalog lists every chain of keyed descents\<close>

lemma paths_of_keys_mem:
  "map_of kvs k = Some v \<Longrightarrow>
   (prefix @ ''.'' @ k) \<in> set (paths_of_keys kvs prefix) \<and>
   set (extractJsonPaths v (prefix @ ''.'' @ k)) \<subseteq> set (paths_of_keys kvs prefix)"
  by (induction kvs) (auto split: if_splits)

lemma keyed_path_Cons: "keyed_path prefix (k # ks) = keyed_path (prefix @ ''.'' @ k) ks"
  by (simp add: keyed_path_def)

lemma catalog_keyed:
  "descend d ks = Some v \<Longrightarrow> ks \<noteq> [] \<Longrightarrow>
   keyed_path prefix ks \<in> set (extractJsonPaths d prefix)"
proof (induction d ks arbitrary: prefix rule: descend.induct)
  case (2 kvs k ks)
  then obtain w where w: "map_of kvs k = Some w" "descend w ks = Some v"
    by (auto split: option.splits)
  note m = paths_of_keys_mem [OF w(1), of prefix]
  show ?case
  proof (cases ks)
    case Nil
    then show ?thesis using m by (simp add: keyed_path_def)
  next
    case (Cons a list)
    then have "keyed_path (prefix @ ''.'' @ k) ks \<in> set (extractJsonPaths w (prefix @ ''.'' @ k))"
      using 2 w by simp
    then show ?thesis using m by (auto simp: keyed_path_Cons)
  qed
qed simp_all

text \<open>
  C2, as the code has it. Take a document \<open>d\<close> and a non-empty chain of keys \<open>ks\<close> that
  can be followed from \<open>d\<close> through keyed mappings to a value \<open>v\<close> (these chains are the
  catalog's paths built purely from keyed descents). The catalog lists the path
  \<^verbatim>\<open>$.k1.k2...kn\<close>; and when every key is not empty and has neither a dot nor an opening
  bracket, resolving that path in Keyed mode yields exactly \<open>v\<close>.
\<close>

theorem keyed_path_resolves:
  assumes "descend d ks = Some v" and "ks \<noteq> []" and "\<forall>k\<in>set ks. plain_key k"
  shows "keyed_path ''$'' ks \<in> set (extractJsonPaths d ''$'') \<and>
         extractValue d (keyed_path ''$'' ks) Json = Inr v"
proof -
  obtain kvs where d: "d = JObj kvs" using assms(1,2) by (cases d; cases ks) simp_all
  have "walk d (ks @ []) = walk v []" using assms by (intro walk_descend)
  then have "walk d (path_parts (keyed_path ''$'' ks)) = Inr v"
    using assms(3) by (simp add: path_parts_keyed)
  then show ?thesis using catalog_keyed [OF assms(1,2)] d by (simp add: extractValue_def)
qed

theorem keyed_path_resolves_witness:
  "keyed_path ''$'' [''a'', ''b''] = ''$.a.b'' \<and>
   ''$.a.b'' \<in> set (extractJsonPaths (JObj [(''a'', JObj [(''b'', JNum 1)])]) ''$'') \<and>
   extractValue (JObj [(''a'', JObj [(''b'', JNum 1)])]) ''$.a.b'' Json = Inr (JNum 1)"
proof -
  have p: "keyed_path ''$'' [''a'', ''b''] = ''$.a.b''" by (simp add: keyed_path_def)
  have h1: "descend (JObj [(''a'', JObj [(''b'', JNum 1)])]) [''a'', ''b''] = Some (JNum 1)"
    by simp
  have h2: "[''a'', ''b''] \<noteq> []" by simp
  have h3: "\<forall>k\<in>set [''a'', ''b'']. plain_key k" by (simp add: plain_key_def)
  show ?thesis using keyed_path_resolves [OF h1 h2 h3] p by simp
qed

text \<open>
  C2 as stated fails for a key that holds a dot (and likewise for the empty key): for the
  document \<^verbatim>\<open>{"a.b": 1}\<close> the catalog lists \<^verbatim>\<open>$.a.b\<close>, built from the one keyed descent
  \<^verbatim>\<open>a.b\<close> that reaches 1, but the resolver splits it into \<^verbatim>\<open>a\<close> and \<^verbatim>\<open>b\<close> and
  returns null. For \<^verbatim>\<open>{"": 1}\<close> the catalog lists \<^verbatim>\<open>$.\<close>, which resolves to the whole
  document.
\<close>

theorem keyed_path_dotted_key_counterexample:
  "keyed_path ''$'' [''a.b''] = ''$.a.b'' \<and>
   ''$.a.b'' \<in> set (extractJsonPaths (JObj [(''a.b'', JNum 1)]) ''$'') \<and>
   descend (JObj [(''a.b'', JNum 1)]) [''a.b''] = Some (JNum 1) \<and>
   extractValue (JObj [(''a.b'', JNum 1)]) ''$.a.b'' Json = Inr JNull \<and>
   ''$.'' \<in> set (extractJsonPaths (JObj [([], JNum 1)]) ''$'') \<and>
   descend (JObj [([], JNum 1)]) [[]] = Some (JNum 1) \<and>
   extractValue (JObj [([], JNum 1)]) ''$.'' Json = Inr (JObj [([], JNum 1)])"
  by (simp add: keyed_path_def extractValue_def path_parts_def arrayMatch_def is_word_def
      own_prop_def)

section \<open>The wildcard\<close>

lemma descend_truthy: "descend d ks = Some v \<Longrightarrow> truthy v \<Longrightarrow> truthy d"
  by (cases d; cases ks) simp_all

lemma wildcard_step:
  assumes "arrayMatch part = Some (key, ''*'')"
    and "(if key \<noteq> [] \<and> typeof_object cur \<and> cur \<noteq> JNull
          then get_prop cur key else Inr cur) = Inr (JArr xs)"
  shows "walk cur (part # rest) = Inr (JArr xs) \<and> truthy cur"
  using assms by (cases cur) (simp_all split: if_splits)

text \<open>
  C6. When the walk meets a segment whose bracket part is the wildcard and the value
  reached (the property named by the segment's key when there is a key and the current
  value is an object, else the current value) is a sequence, the resolver returns that
  sequence unchanged, whatever segments remain. In particular, for a document in which a
  chain of plain keys leads to the current value, a path made of these keys, the wildcard
  segment and any further segments resolves to that sequence.
\<close>

theorem wildcard_returns_sequence:
  assumes "arrayMatch part = Some (key, ''*'')"
    and "(if key \<noteq> [] \<and> typeof_object cur \<and> cur \<noteq> JNull
          then get_prop cur key else Inr cur) = Inr (JArr xs)"
  shows "walk cur (part # rest) = Inr (JArr xs) \<and>
         (\<forall>d ks path. descend d ks = Some cur \<and> (\<forall>k\<in>set ks. plain_key k) \<and>
              path_parts path = ks @ part # rest \<longrightarrow>
              extractValue d path Json = Inr (JArr xs))"
proof (intro conjI allI impI)
  from wildcard_step [OF assms, of rest]
  have s1: "walk cur (part # rest) = Inr (JArr xs)" and s2: "truthy cur"
    by (rule conjunct1, rule conjunct2)
  show "walk cur (part # rest) = Inr (JArr xs)" by (rule s1)
  fix d ks path
  assume a: "descend d ks = Some cur \<and> (\<forall>k\<in>set ks. plain_key k) \<and>
      path_parts path = ks @ part # rest"
  then have a1: "descend d ks = Some cur" and a2: "\<forall>k\<in>set ks. plain_key k"
    and a3: "path_parts path = ks @ part # rest"
    by (rule conjunct1, rule conjunct2 [THEN conjunct1], rule conjunct2 [THEN conjunct2])
  have t: "truthy d" using a1 s2 by (rule descend_truthy)
  have "walk d (ks @ part # rest) = walk cur (part # rest)"
    using a1 a2 by (rule walk_descend)
  then have "walk d (path_parts path) = Inr (JArr xs)"
    unfolding a3 s1 .
  then show "extractValue d path Json = Inr (JArr xs)"
    using t by (simp add: extractValue_def)
qed

text \<open>The example of the specification, and a wildcard followed by a further segment.\<close>

theorem wildcard_returns_sequence_witness:
  "arrayMatch ''b[*]'' = Some (''b'', ''*'') \<and>
   walk (JObj [(''b'', JArr [JNum 1, JNum 2, JNum 3])]) [''b[*]'', ''c''] =
     Inr (JArr [JNum 1, JNum 2, JNum 3]) \<and>
   extractValue (JObj [(''a'', JObj [(''b'', JArr [JNum 1, JNum 2, JNum 3])])])
     ''$.a.b[*]'' Json = Inr (JArr [JNum 1, JNum 2, JNum 3])"
proof -
  have m: "arrayMatch ''b[*]'' = Some (''b'', ''*'')"
    by (simp add: arrayMatch_def is_word_def)
  have r: "(if ''b'' \<noteq> [] \<and> typeof_object (JObj [(''b'', JArr [JNum 1, JNum 2, JNum 3])]) \<and>
              JObj [(''b'', JArr [JNum 1, JNum 2, JNum 3])] \<noteq> JNull
            then get_prop (JObj [(''b'', JArr [JNum 1, JNum 2, JNum 3])]) ''b''
            else Inr (JObj [(''b'', JArr [JNum 1, JNum 2, JNum 3])])) =
           Inr (JArr [JNum 1, JNum 2, JNum 3])"
    by (simp add: own_prop_def)
  have d: "descend (JObj [(''a'', JObj [(''b'', JArr [JNum 1, JNum 2, JNum 3])])]) [''a''] =
      Some (JObj [(''b'', JArr [JNum 1, JNum 2, JNum 3])])"
    by simp
  have k: "\<forall>k\<in>set [''a'']. plain_key k" by (simp add: plain_key_def)
  have p: "path_parts ''$.a.b[*]'' = [''a''] @ ''b[*]'' # []" by (simp add: path_parts_def)
  note t = wildcard_returns_sequence [OF m r]
  have "walk (JObj [(''b'', JArr [JNum 1, JNum 2, JNum 3])]) [''b[*]'', ''c''] =
      Inr (JArr [JNum 1, JNum 2, JNum 3])"
    by (rule t [THEN conjunct1])
  moreover have "extractValue (JObj [(''a'', JObj [(''b'', JArr [JNum 1, JNum 2, JNum 3])])])
     ''$.a.b[*]'' Json = Inr (JArr [JNum 1, JNum 2, JNum 3])"
    using t [of "[]", THEN conjunct2, rule_format, of _ "[''a'']" "''$.a.b[*]''"] d k p
    by (simp only: simp_thms)
  ultimately show ?thesis using m by (simp only: simp_thms)
qed

section \<open>Properties of the positional statistics\<close>

text \<open>
  C7. For every document the positional sample list has as many elements as the
  positional length says.
\<close>

theorem positional_samples_length:
  "length (getPositionalSampleValues d) = getPositionalArrayLength d"
proof (cases d)
  case (JArr xs)
  then show ?thesis
    by (cases xs)
      (simp_all add: getPositionalSampleValues_def getPositionalArrayLength_def Let_def)
qed (simp_all add: getPositionalSampleValues_def getPositionalArrayLength_def)

text \<open>The three shapes: a collection of flat records, one flat record, keyed records.\<close>

theorem positional_samples_length_witness:
  "length (getPositionalSampleValues (JArr [JArr [JNum 1, JStr ''RENEW''], JArr []])) = 2 \<and>
   getPositionalArrayLength (JArr [JArr [JNum 1, JStr ''RENEW''], JArr []]) = 2 \<and>
   length (getPositionalSampleValues (JArr [JNum 1, JNull, JStr ''x''])) = 3 \<and>
   getPositionalArrayLength (JArr [JNum 1, JNull, JStr ''x'']) = 3 \<and>
   length (getPositionalSampleValues (JArr [JObj [(''id'', JNum 1)], JNum 2])) = 0 \<and>
   getPositionalArrayLength (JArr [JObj [(''id'', JNum 1)], JNum 2]) = 0"
  using positional_samples_length [of "JArr [JArr [JNum 1, JStr ''RENEW''], JArr []]"]
    positional_samples_length [of "JArr [JNum 1, JNull, JStr ''x'']"]
    positional_samples_length [of "JArr [JObj [(''id'', JNum 1)], JNum 2]"]
  by (simp add: getPositionalArrayLength_def)

section \<open>Properties of the mapping evaluator\<close>

subsection \<open>The record collection under the keyed format\<close>

text \<open>
  C3, at the document \<^verbatim>\<open>{"data": []}\<close>. The probe finds the candidate key \<^verbatim>\<open>data\<close>,
  whose value is a sequence, and takes it; the test for the fallback is
  \<^verbatim>\<open>records.length === 0\<close>, which an empty sequence that was found passes too. So the
  record collection is not that empty sequence but the document itself as one record, and
  the evaluator returns one row with the key \<^verbatim>\<open>unknown\<close>. The sibling path for a document
  that is itself the empty sequence keeps the empty collection.
\<close>

theorem envelope_empty_sequence_wrapped:
  "derive_records Json (JObj [(''data'', JArr [])]) = Inr [JObj [(''data'', JArr [])]] \<and>
   derive_records Json (JArr []) = Inr [] \<and>
   processResultsData
     \<lparr>target = Organizations, responseFormat = Json, keyPath = ''$.id'', keyIndex = Some 0,
      mappings = []\<rparr> (JObj [(''data'', JArr [])]) =
   Inr (PRows [\<lparr>entityKey = ''unknown'', orgName = ''Property unknown'',
                mappedFields = Map.empty\<rparr>])"
  by (simp add: processResultsData_def derive_records_def process_record_def key_value_def
      key_string_def getOrgNameFromKey_def FAKE_INTERNAL_ENTITY_MAP_def envelope_keys_def
      extractValue_def path_parts_def arrayMatch_def is_word_def own_prop_def)

subsection \<open>Entity keys\<close>







subsection \<open>The positional format on a document that is not a sequence\<close>




section \<open>Properties of the mapping configuration\<close>













end
